theory Spec2Isabelle
  imports Main
begin

section \<open>Values shared by the search modules\<close>

text \<open>
  A JavaScript value read from \<^verbatim>\<open>process.env\<close> or from a JSON body is a string
  or is absent: \<open>None\<close> stands for \<^verbatim>\<open>undefined\<close>. The tests \<^verbatim>\<open>!!v\<close>,
  \<^verbatim>\<open>if (v)\<close> and \<^verbatim>\<open>v || w\<close> hold for a string exactly when it is present and
  not empty.
\<close>

definition truthy :: "string option \<Rightarrow> bool" where
  "truthy v = (case v of None \<Rightarrow> False | Some s \<Rightarrow> s \<noteq> [])"

text \<open>\<^verbatim>\<open>s.includes(t)\<close>: \<open>t\<close> occurs in \<open>s\<close> as a contiguous block.\<close>

fun starts_with :: "string \<Rightarrow> string \<Rightarrow> bool" where
  "starts_with s [] = True"
| "starts_with [] (c # cs) = False"
| "starts_with (x # xs) (c # cs) = (x = c \<and> starts_with xs cs)"

fun str_includes :: "string \<Rightarrow> string \<Rightarrow> bool" where
  "str_includes [] t = (t = [])"
| "str_includes (x # xs) t = (starts_with (x # xs) t \<or> str_includes xs t)"

text \<open>
  The normalized result \<^verbatim>\<open>new SearchResult(url, title, description)\<close>. The adapters
  pass fields of an untyped JSON body to the constructor, so each field may be absent.
\<close>

record SearchResult =
  url :: "string option"
  title :: "string option"
  description :: "string option"

text \<open>
  A thrown \<^verbatim>\<open>Error\<close>: its \<^verbatim>\<open>message\<close> and, for an HTTP failure raised by the
  client, \<^verbatim>\<open>error.response?.status\<close>.
\<close>

record js_error =
  message :: string
  status :: "nat option"

type_synonym outcome = "js_error + SearchResult list"

section \<open>Provider selection (the search index module)\<close>

datatype provider = Google | Serper | SearchAPI | SearxNG | Brave | DuckDuckGo

fun provider_name :: "provider \<Rightarrow> string" where
  "provider_name Google = ''google''"
| "provider_name Serper = ''serper''"
| "provider_name SearchAPI = ''searchapi''"
| "provider_name SearxNG = ''searxng''"
| "provider_name Brave = ''brave''"
| "provider_name DuckDuckGo = ''duckduckgo''"

text \<open>The five settings of \<^verbatim>\<open>process.env\<close> that the module reads.\<close>

record env =
  SERPER_API_KEY :: "string option"
  SEARCHAPI_API_KEY :: "string option"
  SEARXNG_ENDPOINT :: "string option"
  BRAVE_SEARCH_API_KEY :: "string option"
  DUCKDUCKGO_ENABLED :: "string option"

text \<open>
  The module-level variables \<^verbatim>\<open>lastProvider\<close>, \<^verbatim>\<open>googleFailCount\<close> and
  \<^verbatim>\<open>lastGoogleFailure\<close>. The counter starts at 0 and is only incremented or set to
  0, so it is a natural number; times are milliseconds as \<^verbatim>\<open>Date.now()\<close> gives them.
\<close>

record tracker =
  lastProvider :: string
  googleFailCount :: nat
  lastGoogleFailure :: int

definition initial_tracker :: tracker where
  "initial_tracker = \<lparr>lastProvider = [], googleFailCount = 0, lastGoogleFailure = 0\<rparr>"

definition MAX_GOOGLE_FAILURES :: nat where
  "MAX_GOOGLE_FAILURES = 5"

definition GOOGLE_FAILURE_RESET_TIME :: int where
  "GOOGLE_FAILURE_RESET_TIME = 30 * 60 * 1000"

text \<open>
  \<^verbatim>\<open>selectSearchProvider\<close>, with the value of \<^verbatim>\<open>Date.now()\<close> and the environment
  as arguments and the updated module state returned beside the provider. The two
  chains of \<^verbatim>\<open>if (hasX) return ...\<close> are written out as the source has them.
\<close>

definition selectSearchProvider :: "tracker \<Rightarrow> env \<Rightarrow> int \<Rightarrow> provider \<times> tracker" where
  "selectSearchProvider s e now =
    (let s1 = (if googleFailCount s > 0 \<and> now - lastGoogleFailure s > GOOGLE_FAILURE_RESET_TIME
               then s\<lparr>googleFailCount := 0\<rparr> else s);
         hasSerper = truthy (SERPER_API_KEY e);
         hasSearchAPI = truthy (SEARCHAPI_API_KEY e);
         hasSearxNG = truthy (SEARXNG_ENDPOINT e);
         hasBraveSearch = truthy (BRAVE_SEARCH_API_KEY e);
         hasDuckDuckGo = truthy (DUCKDUCKGO_ENABLED e)
     in if googleFailCount s1 \<ge> MAX_GOOGLE_FAILURES then
          (if hasSerper then (Serper, s1)
           else if hasSearchAPI then (SearchAPI, s1)
           else if hasSearxNG then (SearxNG, s1)
           else if hasBraveSearch then (Brave, s1)
           else if hasDuckDuckGo then (DuckDuckGo, s1)
           else (Google, s1\<lparr>googleFailCount := 0\<rparr>))
        else if hasSerper then (Serper, s1)
        else if hasSearchAPI then (SearchAPI, s1)
        else if hasSearxNG then (SearxNG, s1)
        else if hasBraveSearch then (Brave, s1)
        else if hasDuckDuckGo then (DuckDuckGo, s1)
        else (Google, s1))"

text \<open>
  The settings as the resolver sees them: a setting counts as configured when its
  value is present and not empty (\<^verbatim>\<open>!!process.env.X\<close>).
\<close>

definition has_alternative :: "env \<Rightarrow> bool" where
  "has_alternative e =
    (truthy (SERPER_API_KEY e) \<or> truthy (SEARCHAPI_API_KEY e) \<or> truthy (SEARXNG_ENDPOINT e)
     \<or> truthy (BRAVE_SEARCH_API_KEY e) \<or> truthy (DUCKDUCKGO_ENABLED e))"

text \<open>The resolver's priority order, and the first configured alternative in it.\<close>

fun configured :: "env \<Rightarrow> provider \<Rightarrow> bool" where
  "configured e Google = True"
| "configured e Serper = truthy (SERPER_API_KEY e)"
| "configured e SearchAPI = truthy (SEARCHAPI_API_KEY e)"
| "configured e SearxNG = truthy (SEARXNG_ENDPOINT e)"
| "configured e Brave = truthy (BRAVE_SEARCH_API_KEY e)"
| "configured e DuckDuckGo = truthy (DUCKDUCKGO_ENABLED e)"

definition resolver_order :: "provider list" where
  "resolver_order = [Serper, SearchAPI, SearxNG, Brave, DuckDuckGo]"

definition first_configured :: "env \<Rightarrow> provider list \<Rightarrow> provider option" where
  "first_configured e ps = (case filter (configured e) ps of [] \<Rightarrow> None | p # _ \<Rightarrow> Some p)"

text \<open>Lines 19 to 23 alone: the cooling-period step on the counter.\<close>

definition cooled_count :: "tracker \<Rightarrow> int \<Rightarrow> nat" where
  "cooled_count s now =
    (if googleFailCount s > 0 \<and> now - lastGoogleFailure s > GOOGLE_FAILURE_RESET_TIME
     then 0 else googleFailCount s)"

text \<open>Lines 25 to 54 alone: the selection on the counter that the first step leaves.\<close>

definition select_on :: "tracker \<Rightarrow> env \<Rightarrow> provider \<times> tracker" where
  "select_on s1 e =
    (if googleFailCount s1 \<ge> MAX_GOOGLE_FAILURES then
       (if truthy (SERPER_API_KEY e) then (Serper, s1)
        else if truthy (SEARCHAPI_API_KEY e) then (SearchAPI, s1)
        else if truthy (SEARXNG_ENDPOINT e) then (SearxNG, s1)
        else if truthy (BRAVE_SEARCH_API_KEY e) then (Brave, s1)
        else if truthy (DUCKDUCKGO_ENABLED e) then (DuckDuckGo, s1)
        else (Google, s1\<lparr>googleFailCount := 0\<rparr>))
     else if truthy (SERPER_API_KEY e) then (Serper, s1)
     else if truthy (SEARCHAPI_API_KEY e) then (SearchAPI, s1)
     else if truthy (SEARXNG_ENDPOINT e) then (SearxNG, s1)
     else if truthy (BRAVE_SEARCH_API_KEY e) then (Brave, s1)
     else if truthy (DUCKDUCKGO_ENABLED e) then (DuckDuckGo, s1)
     else (Google, s1))"

section \<open>The failover orchestrator: \<^verbatim>\<open>search\<close>\<close>

text \<open>
  The destructured argument of \<^verbatim>\<open>search\<close>, after its defaults have been applied.
  \<^verbatim>\<open>num_results\<close>, \<^verbatim>\<open>sleep_interval\<close> and \<^verbatim>\<open>timeout\<close> are JavaScript
  numbers; the model covers the integers.
\<close>

record search_args =
  query :: string
  advanced :: bool
  num_results :: int
  tbs :: "string option"
  filter_arg :: "string option"
  lang :: string
  country :: string
  location :: "string option"
  proxy :: "string option"
  sleep_interval :: int
  timeout :: int

text \<open>
  One invocation of an adapter, with the arguments in the order the source passes
  them: the three keyed adapters take \<^verbatim>\<open>{num_results, tbs, filter, lang, country,
  location}\<close>, \<^verbatim>\<open>braveSearch\<close> takes \<^verbatim>\<open>{num_results, lang, country, timeout}\<close>,
  \<^verbatim>\<open>duckduckgoSearch\<close> takes \<^verbatim>\<open>{num_results, region, timeout}\<close> and
  \<^verbatim>\<open>googleSearch\<close> takes ten positional arguments.
\<close>

datatype call =
    CallSerper string int "string option" "string option" string string "string option"
  | CallSearchapi string int "string option" "string option" string string "string option"
  | CallSearxng string int "string option" "string option" string string "string option"
  | CallBrave string int string string int
  | CallDuckduckgo string int string int
  | CallGoogle string bool int "string option" "string option" string string "string option"
      int int

text \<open>
  The call the source writes for each provider. The \<^verbatim>\<open>switch\<close> and the fallback
  chain of the \<^verbatim>\<open>catch\<close> block build the same object literal for a provider.
\<close>

fun call_for :: "search_args \<Rightarrow> provider \<Rightarrow> call" where
  "call_for a Serper = CallSerper (query a) (num_results a) (tbs a) (filter_arg a) (lang a)
     (country a) (location a)"
| "call_for a SearchAPI = CallSearchapi (query a) (num_results a) (tbs a) (filter_arg a)
     (lang a) (country a) (location a)"
| "call_for a SearxNG = CallSearxng (query a) (num_results a) (tbs a) (filter_arg a) (lang a)
     (country a) (location a)"
| "call_for a Brave = CallBrave (query a) (num_results a) (lang a) (country a) (timeout a)"
| "call_for a DuckDuckGo = CallDuckduckgo (query a) (num_results a) (country a) (timeout a)"
| "call_for a Google = CallGoogle (query a) (advanced a) (num_results a) (tbs a) (filter_arg a)
     (lang a) (country a) (proxy a) (sleep_interval a) (timeout a)"

text \<open>
  What one run of \<^verbatim>\<open>search\<close> reads from outside. \<^verbatim>\<open>process.env\<close> and
  \<^verbatim>\<open>Date.now()\<close> are read once in \<^verbatim>\<open>selectSearchProvider\<close> and once more in the
  \<^verbatim>\<open>catch\<close> block, after the \<^verbatim>\<open>await\<close> of \<^verbatim>\<open>googleSearch\<close>; each read has its
  own field. \<open>adapter\<close> gives what an awaited adapter call settles to: \<open>Inr\<close> its
  results, \<open>Inl\<close> the error it throws. Adapter calls are taken to settle, and the logger
  to return.
\<close>

record world =
  select_env :: env
  select_time :: int
  failure_env :: env
  failure_time :: int
  adapter :: "call \<Rightarrow> outcome"

text \<open>
  What a run leaves behind: what \<^verbatim>\<open>search\<close> returns or throws, the module
  variables afterwards, and the adapter calls made, in order.
\<close>

record search_run =
  returned :: outcome
  final :: tracker
  invoked :: "call list"

definition rate_limited :: "js_error \<Rightarrow> bool" where
  "rate_limited error = (message error \<noteq> [] \<and> str_includes (message error) ''Too many requests'')"

text \<open>The body of the outer \<^verbatim>\<open>try\<close> (lines 83 to 181).\<close>

definition search_try :: "tracker \<Rightarrow> world \<Rightarrow> search_args \<Rightarrow> search_run" where
  "search_try s w a =
    (let (provider, s1) = selectSearchProvider s (select_env w) (select_time w);
         s2 = s1\<lparr>lastProvider := provider_name provider\<rparr>
     in case provider of
          Serper \<Rightarrow> \<lparr>returned = adapter w (call_for a Serper), final = s2,
                      invoked = [call_for a Serper]\<rparr>
        | SearchAPI \<Rightarrow> \<lparr>returned = adapter w (call_for a SearchAPI), final = s2,
                      invoked = [call_for a SearchAPI]\<rparr>
        | SearxNG \<Rightarrow> \<lparr>returned = adapter w (call_for a SearxNG), final = s2,
                      invoked = [call_for a SearxNG]\<rparr>
        | Brave \<Rightarrow> \<lparr>returned = adapter w (call_for a Brave), final = s2,
                      invoked = [call_for a Brave]\<rparr>
        | DuckDuckGo \<Rightarrow> \<lparr>returned = adapter w (call_for a DuckDuckGo), final = s2,
                      invoked = [call_for a DuckDuckGo]\<rparr>
        | Google \<Rightarrow>
            (case adapter w (call_for a Google) of
               Inr rs \<Rightarrow> \<lparr>returned = Inr rs, final = s2, invoked = [call_for a Google]\<rparr>
             | Inl error \<Rightarrow>
                 if rate_limited error then
                   (let s3 = s2\<lparr>googleFailCount := googleFailCount s2 + 1,
                                 lastGoogleFailure := failure_time w\<rparr>
                    in if truthy (BRAVE_SEARCH_API_KEY (failure_env w)) then
                         \<lparr>returned = adapter w (call_for a Brave), final = s3,
                          invoked = [call_for a Google, call_for a Brave]\<rparr>
                       else if truthy (DUCKDUCKGO_ENABLED (failure_env w)) then
                         \<lparr>returned = adapter w (call_for a DuckDuckGo), final = s3,
                          invoked = [call_for a Google, call_for a DuckDuckGo]\<rparr>
                       else if truthy (SERPER_API_KEY (failure_env w)) then
                         \<lparr>returned = adapter w (call_for a Serper), final = s3,
                          invoked = [call_for a Google, call_for a Serper]\<rparr>
                       else if truthy (SEARCHAPI_API_KEY (failure_env w)) then
                         \<lparr>returned = adapter w (call_for a SearchAPI), final = s3,
                          invoked = [call_for a Google, call_for a SearchAPI]\<rparr>
                       else if truthy (SEARXNG_ENDPOINT (failure_env w)) then
                         \<lparr>returned = adapter w (call_for a SearxNG), final = s3,
                          invoked = [call_for a Google, call_for a SearxNG]\<rparr>
                       else \<lparr>returned = Inl error, final = s3, invoked = [call_for a Google]\<rparr>)
                 else \<lparr>returned = Inl error, final = s2, invoked = [call_for a Google]\<rparr>))"

text \<open>\<^verbatim>\<open>search\<close>: the outer \<^verbatim>\<open>catch\<close> logs and returns the empty array.\<close>

definition search :: "tracker \<Rightarrow> world \<Rightarrow> search_args \<Rightarrow> search_run" where
  "search s w a =
    (let r = search_try s w a
     in case returned r of
          Inr rs \<Rightarrow> r
        | Inl error \<Rightarrow> r\<lparr>returned := Inr []\<rparr>)"

text \<open>The order in which the \<^verbatim>\<open>catch\<close> block tests the settings.\<close>

definition fallback_order :: "provider list" where
  "fallback_order = [Brave, DuckDuckGo, Serper, SearchAPI, SearxNG]"

text \<open>
  The fallback as the specification words it, for comparison with the code: walk the
  alternatives configured at that moment in the resolver's order, invoking each until
  one succeeds; the empty list when all have failed.
\<close>

fun spec_walk :: "(call \<Rightarrow> outcome) \<Rightarrow> call list \<Rightarrow> SearchResult list \<times> call list" where
  "spec_walk ad [] = ([], [])"
| "spec_walk ad (c # cs) =
    (case ad c of
       Inr rs \<Rightarrow> (rs, [c])
     | Inl error \<Rightarrow> (let (rs, tr) = spec_walk ad cs in (rs, c # tr)))"

definition spec_fallback :: "world \<Rightarrow> search_args \<Rightarrow> SearchResult list \<times> call list" where
  "spec_fallback w a =
    spec_walk (adapter w) (map (call_for a) (filter (configured (failure_env w)) resolver_order))"

section \<open>The adapters' retry loop\<close>

text \<open>
  What one awaited \<^verbatim>\<open>axios\<close> request settles to: a response with its parsed body, or
  a thrown error. A run of an adapter is given the settlement of its \<open>i\<close>-th request
  (from 0) and records what it does: each request sent and each backoff sleep, with
  its delay in milliseconds.
\<close>

datatype 'd http = Response 'd | Failure js_error

datatype event = Request | Wait int

definition maxRetries :: nat where
  "maxRetries = 3"

definition baseRetryDelay :: int where
  "baseRetryDelay = 1000"

definition retryable :: "js_error \<Rightarrow> bool" where
  "retryable error = (status error = Some 429 \<or> status error = Some 503)"

text \<open>
  The schedule as the specification states it, for comparison with the loops: \<open>k\<close>
  retried attempts, the \<open>i\<close>-th (from 0) followed by a sleep of \<open>1000 * 2 ^ i\<close> ms.
\<close>

fun backoff :: "nat \<Rightarrow> event list" where
  "backoff 0 = []"
| "backoff (Suc k) = backoff k @ [Request, Wait (1000 * 2 ^ k)]"

section \<open>The Brave adapter\<close>

text \<open>
  The body of a Brave response, as far as the adapter reads it:
  \<^verbatim>\<open>data.web?.results\<close>, absent or a list of items with the fields \<^verbatim>\<open>url\<close>,
  \<^verbatim>\<open>title\<close> and \<^verbatim>\<open>description\<close>.
\<close>

record brave_data =
  web_results :: "SearchResult list option"

text \<open>The \<^verbatim>\<open>try\<close> block of one iteration: the request, then the transformation.\<close>

definition brave_attempt :: "brave_data http \<Rightarrow> outcome" where
  "brave_attempt h =
    (case h of
       Failure error \<Rightarrow> Inl error
     | Response d \<Rightarrow>
         (case web_results d of
            None \<Rightarrow> Inr []
          | Some items \<Rightarrow>
              if length items = 0 then Inr []
              else Inr (map (\<lambda>item. \<lparr>url = url item, title = title item,
                                        description = description item\<rparr>) items)))"

function brave_loop :: "(nat \<Rightarrow> brave_data http) \<Rightarrow> nat \<Rightarrow> event list \<Rightarrow> outcome \<times> event list" where
  "brave_loop http retryCount evs =
    (if retryCount \<le> maxRetries then
       (case brave_attempt (http retryCount) of
          Inr rs \<Rightarrow> (Inr rs, evs @ [Request])
        | Inl error \<Rightarrow>
            if retryable error \<and> retryCount < maxRetries then
              brave_loop http (retryCount + 1)
                (evs @ [Request, Wait (baseRetryDelay * 2 ^ retryCount)])
            else (Inl \<lparr>message = ''Brave Search API error: '' @ message error, status = None\<rparr>,
                  evs @ [Request]))
     else (Inr [], evs))"
  by pat_completeness auto
termination
  by (relation "measure (\<lambda>(http, retryCount, evs). Suc maxRetries - retryCount)") auto

declare brave_loop.simps [simp del]

definition braveSearch :: "env \<Rightarrow> (nat \<Rightarrow> brave_data http) \<Rightarrow> outcome \<times> event list" where
  "braveSearch e http =
    (if \<not> truthy (BRAVE_SEARCH_API_KEY e) then
       (Inl \<lparr>message = ''Brave Search API key not configured'', status = None\<rparr>, [])
     else brave_loop http 0 [])"

section \<open>The DuckDuckGo adapter\<close>

text \<open>
  The body of a DuckDuckGo response, as far as the adapter reads it. An entry of
  \<^verbatim>\<open>Results\<close> or \<^verbatim>\<open>RelatedTopics\<close> is an object whose \<^verbatim>\<open>FirstURL\<close> and
  \<^verbatim>\<open>Text\<close> may be absent; \<open>Topics\<close> says whether it carries a nested \<^verbatim>\<open>Topics\<close>
  array (an array is truthy even when empty). A list that is \<open>None\<close> is absent from
  the body.
\<close>

record ddg_entry =
  FirstURL :: "string option"
  Text :: "string option"
  Topics :: bool

record ddg_data =
  AbstractURL :: "string option"
  AbstractText :: "string option"
  AbstractTitle :: "string option"
  Heading :: "string option"
  Results :: "ddg_entry list option"
  RelatedTopics :: "ddg_entry list option"

text \<open>
  \<^verbatim>\<open>s.split(sep)\<close> for a separator that is not empty: the pieces between the
  occurrences of \<open>sep\<close>, found from left to right without overlap. \<open>cur\<close> is the
  piece being read.
\<close>

fun js_split :: "string \<Rightarrow> string \<Rightarrow> string \<Rightarrow> string list" where
  "js_split sep cur [] = [cur]"
| "js_split sep cur (c # cs) =
    (if sep \<noteq> [] \<and> starts_with (c # cs) sep
     then cur # js_split sep [] (drop (length sep) (c # cs))
     else js_split sep (cur @ [c]) cs)"

text \<open>\<^verbatim>\<open>xs.slice(0, n)\<close>: a negative \<open>n\<close> counts from the end.\<close>

definition js_slice0 :: "'a list \<Rightarrow> int \<Rightarrow> 'a list" where
  "js_slice0 xs n = (if n < 0 then take (nat (int (length xs) + n)) xs else take (nat n) xs)"

text \<open>Lines 50 to 56: the featured snippet.\<close>

definition abstract_entry :: "ddg_data \<Rightarrow> SearchResult list" where
  "abstract_entry d =
    (if truthy (AbstractURL d) \<and> truthy (AbstractText d) then
       [\<lparr>url = AbstractURL d,
         title = (if truthy (AbstractTitle d) then AbstractTitle d else Heading d),
         description = AbstractText d\<rparr>]
     else [])"

text \<open>Lines 59 to 69: \<^verbatim>\<open>Results.forEach\<close>, pushing onto \<open>results\<close>.\<close>

definition result_entry :: "ddg_entry \<Rightarrow> SearchResult" where
  "result_entry r = \<lparr>url = FirstURL r, title = Text r, description = Text r\<rparr>"

fun push_results :: "int \<Rightarrow> ddg_entry list \<Rightarrow> SearchResult list \<Rightarrow> SearchResult list" where
  "push_results n [] results = results"
| "push_results n (r # rs) results =
    push_results n rs
      (if int (length results) < n then results @ [result_entry r] else results)"

text \<open>
  Lines 72 to 85: \<^verbatim>\<open>RelatedTopics.forEach\<close>. \<^verbatim>\<open>topic.Text.split(' - ')[1] ||
  topic.Text\<close> is the second piece of the split when there is one and it is not empty,
  and the whole text otherwise; on a topic without \<^verbatim>\<open>Text\<close> the call of
  \<^verbatim>\<open>split\<close> throws a TypeError, which leaves the \<^verbatim>\<open>forEach\<close>.
\<close>

definition topic_description :: "string \<Rightarrow> string" where
  "topic_description txt =
    (case js_split '' - '' [] txt of
       p0 # p1 # ps \<Rightarrow> if p1 \<noteq> [] then p1 else txt
     | _ \<Rightarrow> txt)"

definition split_of_undefined :: js_error where
  "split_of_undefined =
    \<lparr>message = ''Cannot read properties of undefined (reading 'split')'', status = None\<rparr>"

fun push_topics :: "int \<Rightarrow> ddg_entry list \<Rightarrow> SearchResult list \<Rightarrow> outcome" where
  "push_topics n [] results = Inr results"
| "push_topics n (topic # ts) results =
    (if Topics topic then push_topics n ts results
     else if int (length results) < n \<and> truthy (FirstURL topic) then
       (case Text topic of
          None \<Rightarrow> Inl split_of_undefined
        | Some txt \<Rightarrow>
            push_topics n ts
              (results @ [\<lparr>url = FirstURL topic, title = Text topic,
                            description = Some (topic_description txt)\<rparr>]))
     else push_topics n ts results)"

text \<open>Lines 46 to 87: from the response body to the returned array.\<close>

definition ddg_collect :: "ddg_data \<Rightarrow> int \<Rightarrow> outcome" where
  "ddg_collect d n =
    (let results0 = abstract_entry d;
         results1 = (case Results d of None \<Rightarrow> results0
                     | Some rs \<Rightarrow> push_results n rs results0)
     in case (case RelatedTopics d of None \<Rightarrow> Inr results1
              | Some ts \<Rightarrow> push_topics n ts results1) of
          Inl error \<Rightarrow> Inl error
        | Inr results2 \<Rightarrow> Inr (js_slice0 results2 n))"

definition ddg_attempt :: "ddg_data http \<Rightarrow> int \<Rightarrow> outcome" where
  "ddg_attempt h n = (case h of Failure error \<Rightarrow> Inl error | Response d \<Rightarrow> ddg_collect d n)"

function ddg_loop ::
  "(nat \<Rightarrow> ddg_data http) \<Rightarrow> int \<Rightarrow> nat \<Rightarrow> event list \<Rightarrow> outcome \<times> event list" where
  "ddg_loop http n retryCount evs =
    (if retryCount \<le> maxRetries then
       (case ddg_attempt (http retryCount) n of
          Inr rs \<Rightarrow> (Inr rs, evs @ [Request])
        | Inl error \<Rightarrow>
            if retryable error \<and> retryCount < maxRetries then
              ddg_loop http n (retryCount + 1)
                (evs @ [Request, Wait (baseRetryDelay * 2 ^ retryCount)])
            else (Inl \<lparr>message = ''DuckDuckGo search error: '' @ message error, status = None\<rparr>,
                  evs @ [Request]))
     else (Inr [], evs))"
  by pat_completeness auto
termination
  by (relation "measure (\<lambda>(http, n, retryCount, evs). Suc maxRetries - retryCount)") auto

declare ddg_loop.simps [simp del]

definition duckduckgoSearch :: "(nat \<Rightarrow> ddg_data http) \<Rightarrow> int \<Rightarrow> outcome \<times> event list" where
  "duckduckgoSearch http n = ddg_loop http n 0 []"

text \<open>
  The description of a related topic as the specification words it, for comparison
  with the code: the text after the first \<^verbatim>\<open>" - "\<close>, the whole text when there is
  none.
\<close>

fun after_first :: "string \<Rightarrow> string \<Rightarrow> string option" where
  "after_first sep [] = None"
| "after_first sep (c # cs) =
    (if starts_with (c # cs) sep then Some (drop (length sep) (c # cs)) else after_first sep cs)"

definition spec_topic_description :: "string \<Rightarrow> string" where
  "spec_topic_description txt = (case after_first '' - '' txt of None \<Rightarrow> txt | Some d \<Rightarrow> d)"

text \<open>The text before the first occurrence of \<open>sep\<close>, all of it when there is none.\<close>

fun before_first :: "string \<Rightarrow> string \<Rightarrow> string" where
  "before_first sep [] = []"
| "before_first sep (c # cs) =
    (if starts_with (c # cs) sep then [] else c # before_first sep cs)"

text \<open>The listing of the three sections before truncation, in the order of the code.\<close>

definition listed_topic :: "ddg_entry \<Rightarrow> bool" where
  "listed_topic t = (\<not> Topics t \<and> truthy (FirstURL t))"

definition topic_entry :: "ddg_entry \<Rightarrow> SearchResult" where
  "topic_entry t =
    \<lparr>url = FirstURL t, title = Text t,
     description = (case Text t of None \<Rightarrow> None | Some txt \<Rightarrow> Some (topic_description txt))\<rparr>"

definition merged :: "ddg_data \<Rightarrow> SearchResult list" where
  "merged d =
    abstract_entry d
    @ map result_entry (case Results d of None \<Rightarrow> [] | Some rs \<Rightarrow> rs)
    @ map topic_entry (filter listed_topic (case RelatedTopics d of None \<Rightarrow> [] | Some ts \<Rightarrow> ts))"

section \<open>Example inputs\<close>

definition env_none :: env where
  "env_none = \<lparr>SERPER_API_KEY = None, SEARCHAPI_API_KEY = None, SEARXNG_ENDPOINT = None,
     BRAVE_SEARCH_API_KEY = None, DUCKDUCKGO_ENABLED = None\<rparr>"

definition args0 :: search_args where
  "args0 = \<lparr>query = ''isabelle'', advanced = False, num_results = 5, tbs = None,
     filter_arg = None, lang = ''en'', country = ''us'', location = None, proxy = None,
     sleep_interval = 2, timeout = 5000\<rparr>"

definition hit :: SearchResult where
  "hit = \<lparr>url = Some ''https://isabelle.in.tum.de'', title = Some ''Isabelle'',
     description = Some ''A proof assistant''\<rparr>"

definition world_changed :: world where
  "world_changed =
    \<lparr>select_env = env_none, select_time = 1000,
     failure_env = env_none\<lparr>SERPER_API_KEY := Some ''k1'', BRAVE_SEARCH_API_KEY := Some ''k2''\<rparr>,
     failure_time = 2000,
     adapter = (\<lambda>c. case c of
        CallGoogle _ _ _ _ _ _ _ _ _ _ \<Rightarrow> Inl \<lparr>message = ''Too many requests'', status = None\<rparr>
      | CallBrave _ _ _ _ _ \<Rightarrow> Inl \<lparr>message = ''Brave Search API error: timeout'', status = None\<rparr>
      | _ \<Rightarrow> Inr [hit])\<rparr>"

definition world_timeout :: world where
  "world_timeout =
    \<lparr>select_env = env_none, select_time = 1000,
     failure_env = env_none\<lparr>SERPER_API_KEY := Some ''k1'', BRAVE_SEARCH_API_KEY := Some ''k2''\<rparr>,
     failure_time = 2000,
     adapter = (\<lambda>c. case c of
        CallGoogle _ _ _ _ _ _ _ _ _ _ \<Rightarrow> Inl \<lparr>message = ''timeout of 5000ms exceeded'', status = None\<rparr>
      | _ \<Rightarrow> Inr [hit])\<rparr>"

definition world_recovered :: world where
  "world_recovered =
    \<lparr>select_env = env_none, select_time = 1000,
     failure_env = env_none\<lparr>SERPER_API_KEY := Some ''k1'', BRAVE_SEARCH_API_KEY := Some ''k2''\<rparr>,
     failure_time = 2000,
     adapter = (\<lambda>c. case c of
        CallGoogle _ _ _ _ _ _ _ _ _ _ \<Rightarrow> Inl \<lparr>message = ''Too many requests'', status = None\<rparr>
      | _ \<Rightarrow> Inr [hit])\<rparr>"

definition world_brave_down :: world where
  "world_brave_down =
    \<lparr>select_env = env_none\<lparr>BRAVE_SEARCH_API_KEY := Some ''k2'', DUCKDUCKGO_ENABLED := Some ''true''\<rparr>,
     select_time = 1000,
     failure_env = env_none\<lparr>BRAVE_SEARCH_API_KEY := Some ''k2'', DUCKDUCKGO_ENABLED := Some ''true''\<rparr>,
     failure_time = 2000,
     adapter = (\<lambda>c. case c of
        CallBrave _ _ _ _ _ \<Rightarrow> Inl \<lparr>message = ''Brave Search API error: Too many requests'', status = None\<rparr>
      | _ \<Rightarrow> Inr [hit])\<rparr>"

definition ddg_example :: ddg_data where
  "ddg_example =
    \<lparr>AbstractURL = Some ''https://w.org/Isabelle'', AbstractText = Some ''A proof assistant'',
     AbstractTitle = Some '''', Heading = Some ''Isabelle'',
     Results = Some [\<lparr>FirstURL = Some ''https://isabelle.in.tum.de'', Text = Some ''Official site'',
                       Topics = False\<rparr>,
                     \<lparr>FirstURL = Some ''https://isa-afp.org'', Text = Some ''AFP'', Topics = False\<rparr>],
     RelatedTopics = Some [\<lparr>FirstURL = None, Text = None, Topics = True\<rparr>,
                           \<lparr>FirstURL = Some ''https://d.co/HOL'', Text = Some ''HOL - Logic'',
                             Topics = False\<rparr>]\<rparr>"

definition ddg_topics_only :: ddg_data where
  "ddg_topics_only =
    \<lparr>AbstractURL = None, AbstractText = None, AbstractTitle = None, Heading = None,
     Results = None,
     RelatedTopics = Some [\<lparr>FirstURL = None, Text = Some ''No link'', Topics = False\<rparr>,
                           \<lparr>FirstURL = Some ''https://d.co/c'', Text = Some ''A - B - C'',
                             Topics = False\<rparr>]\<rparr>"

definition ddg_textless :: ddg_data where
  "ddg_textless =
    \<lparr>AbstractURL = None, AbstractText = None, AbstractTitle = None, Heading = None,
     Results = None,
     RelatedTopics = Some [\<lparr>FirstURL = Some ''https://d.co/c'', Text = None, Topics = False\<rparr>]\<rparr>"

definition ddg_urlless_result :: ddg_data where
  "ddg_urlless_result =
    \<lparr>AbstractURL = None, AbstractText = None, AbstractTitle = None, Heading = None,
     Results = Some [\<lparr>FirstURL = None, Text = Some ''Isabelle'', Topics = False\<rparr>],
     RelatedTopics = None\<rparr>"

definition too_many_429 :: js_error where
  "too_many_429 = \<lparr>message = ''Request failed with status code 429'', status = Some 429\<rparr>"

definition brave_flaky :: "nat \<Rightarrow> brave_data http" where
  "brave_flaky i = (if i < 3 then Failure too_many_429 else Response \<lparr>web_results = Some [hit]\<rparr>)"

definition ddg_flaky :: "nat \<Rightarrow> ddg_data http" where
  "ddg_flaky i = (if i < 3 then Failure too_many_429 else Response ddg_example)"

section \<open>Properties of provider selection\<close>

lemma select_with_alternative:
  "has_alternative e \<Longrightarrow>
   Some (fst (selectSearchProvider s e now)) = first_configured e resolver_order"
  by (auto simp add: selectSearchProvider_def has_alternative_def first_configured_def
      resolver_order_def Let_def)

lemma select_without_alternative:
  "\<not> has_alternative e \<Longrightarrow> selectSearchProvider s e now =
     (Google, s\<lparr>googleFailCount :=
        (if cooled_count s now \<ge> MAX_GOOGLE_FAILURES then 0 else cooled_count s now)\<rparr>)"
  by (auto simp add: selectSearchProvider_def has_alternative_def cooled_count_def Let_def)


text \<open>
  C4. Whenever at least one alternative provider is configured,
  \<^verbatim>\<open>selectSearchProvider\<close> does not return google, whatever the failure counter,
  the last failure time and the current time are: it returns the first configured
  alternative in the order serper, searchapi, searxng, brave, duckduckgo.
\<close>

theorem alternatives_dominate_primary:
  "has_alternative e \<Longrightarrow>
     fst (selectSearchProvider s e now) \<noteq> Google
     \<and> Some (fst (selectSearchProvider s e now)) = first_configured e resolver_order"
  using select_with_alternative [of e s now]
  by (auto simp add: first_configured_def resolver_order_def split: list.splits if_splits)

theorem alternatives_dominate_primary_witness:
  "has_alternative (env_none\<lparr>BRAVE_SEARCH_API_KEY := Some ''key''\<rparr>)
   \<and> fst (selectSearchProvider (initial_tracker\<lparr>googleFailCount := 7\<rparr>)
        (env_none\<lparr>BRAVE_SEARCH_API_KEY := Some ''key''\<rparr>) 0) = Brave
   \<and> fst (selectSearchProvider initial_tracker
        (env_none\<lparr>BRAVE_SEARCH_API_KEY := Some ''key''\<rparr>) 0) \<noteq> Google"
  using alternatives_dominate_primary [of "env_none\<lparr>BRAVE_SEARCH_API_KEY := Some ''key''\<rparr>"
      "initial_tracker\<lparr>googleFailCount := 7\<rparr>" 0]
    alternatives_dominate_primary [of "env_none\<lparr>BRAVE_SEARCH_API_KEY := Some ''key''\<rparr>"
      initial_tracker 0]
  by (simp add: has_alternative_def env_none_def truthy_def first_configured_def resolver_order_def)

text \<open>
  C5. When no alternative provider is configured, \<^verbatim>\<open>selectSearchProvider\<close> returns
  google for every value of the failure counter; a counter at or above
  \<^verbatim>\<open>MAX_GOOGLE_FAILURES\<close> is 0 afterwards, a counter below it is what the cooling step
  leaves, and the other module variables are untouched.
\<close>

theorem primary_without_alternatives:
  "\<not> has_alternative e \<Longrightarrow>
     fst (selectSearchProvider s e now) = Google
     \<and> (googleFailCount s \<ge> MAX_GOOGLE_FAILURES \<longrightarrow>
          googleFailCount (snd (selectSearchProvider s e now)) = 0)
     \<and> (googleFailCount s < MAX_GOOGLE_FAILURES \<longrightarrow>
          googleFailCount (snd (selectSearchProvider s e now)) = cooled_count s now)
     \<and> lastGoogleFailure (snd (selectSearchProvider s e now)) = lastGoogleFailure s
     \<and> lastProvider (snd (selectSearchProvider s e now)) = lastProvider s"
  by (simp add: select_without_alternative) (simp add: cooled_count_def)

theorem primary_without_alternatives_witness:
  "\<not> has_alternative env_none
   \<and> selectSearchProvider (initial_tracker\<lparr>googleFailCount := 5, lastGoogleFailure := 1000\<rparr>)
        env_none 2000 = (Google, initial_tracker\<lparr>googleFailCount := 0, lastGoogleFailure := 1000\<rparr>)"
proof -
  have h: "\<not> has_alternative env_none"
    by (simp add: has_alternative_def env_none_def truthy_def)
  show ?thesis
    using h primary_without_alternatives [OF h,
        of "initial_tracker\<lparr>googleFailCount := 5, lastGoogleFailure := 1000\<rparr>" 2000]
    by (cases "selectSearchProvider (initial_tracker\<lparr>googleFailCount := 5, lastGoogleFailure := 1000\<rparr>)
        env_none 2000")
       (simp add: initial_tracker_def MAX_GOOGLE_FAILURES_def)
qed

text \<open>
  C6. \<^verbatim>\<open>selectSearchProvider\<close> is the selection of lines 25 to 54 run on the counter
  that the cooling step leaves: 0 when the counter is positive and more than 30
  minutes (1800000 ms) have passed since the last recorded failure, the counter
  unchanged otherwise.
\<close>

theorem cooldown_before_selection:
  "selectSearchProvider s e now = select_on (s\<lparr>googleFailCount := cooled_count s now\<rparr>) e
   \<and> (googleFailCount s > 0 \<and> now - lastGoogleFailure s > 30 * 60 * 1000 \<longrightarrow>
        cooled_count s now = 0)
   \<and> (\<not> (googleFailCount s > 0 \<and> now - lastGoogleFailure s > 30 * 60 * 1000) \<longrightarrow>
        cooled_count s now = googleFailCount s)"
  by (simp add: selectSearchProvider_def select_on_def cooled_count_def
      GOOGLE_FAILURE_RESET_TIME_def Let_def)

theorem cooldown_before_selection_witness:
  "selectSearchProvider (initial_tracker\<lparr>googleFailCount := 6, lastGoogleFailure := 1000\<rparr>)
      (env_none\<lparr>DUCKDUCKGO_ENABLED := Some ''true''\<rparr>) 1801001
     = (DuckDuckGo, initial_tracker\<lparr>googleFailCount := 0, lastGoogleFailure := 1000\<rparr>)
   \<and> selectSearchProvider (initial_tracker\<lparr>googleFailCount := 6, lastGoogleFailure := 1000\<rparr>)
      env_none 1801000
     = (Google, initial_tracker\<lparr>googleFailCount := 0, lastGoogleFailure := 1000\<rparr>)
   \<and> cooled_count (initial_tracker\<lparr>googleFailCount := 6, lastGoogleFailure := 1000\<rparr>) 1801001 = 0
   \<and> cooled_count (initial_tracker\<lparr>googleFailCount := 6, lastGoogleFailure := 1000\<rparr>) 1801000 = 6"
  using cooldown_before_selection [of "initial_tracker\<lparr>googleFailCount := 6, lastGoogleFailure := 1000\<rparr>"
      "env_none\<lparr>DUCKDUCKGO_ENABLED := Some ''true''\<rparr>" 1801001]
    cooldown_before_selection [of "initial_tracker\<lparr>googleFailCount := 6, lastGoogleFailure := 1000\<rparr>"
      env_none 1801000]
  by (simp add: select_on_def initial_tracker_def env_none_def truthy_def MAX_GOOGLE_FAILURES_def)

text \<open>
  C9. The provider that \<^verbatim>\<open>selectSearchProvider\<close> returns, and the counter it leaves,
  depend only on which settings are configured, on the failure counter, on the last
  failure time and on the current time: two calls that agree on these agree on the
  result, whatever the values of the settings and \<^verbatim>\<open>lastProvider\<close> are.
\<close>

theorem provider_depends_on_inputs_only:
  assumes "truthy (SERPER_API_KEY e1) = truthy (SERPER_API_KEY e2)"
    and "truthy (SEARCHAPI_API_KEY e1) = truthy (SEARCHAPI_API_KEY e2)"
    and "truthy (SEARXNG_ENDPOINT e1) = truthy (SEARXNG_ENDPOINT e2)"
    and "truthy (BRAVE_SEARCH_API_KEY e1) = truthy (BRAVE_SEARCH_API_KEY e2)"
    and "truthy (DUCKDUCKGO_ENABLED e1) = truthy (DUCKDUCKGO_ENABLED e2)"
    and "googleFailCount s1 = googleFailCount s2"
    and "lastGoogleFailure s1 = lastGoogleFailure s2"
  shows "fst (selectSearchProvider s1 e1 now) = fst (selectSearchProvider s2 e2 now)
    \<and> googleFailCount (snd (selectSearchProvider s1 e1 now))
        = googleFailCount (snd (selectSearchProvider s2 e2 now))"
  using assms by (simp add: selectSearchProvider_def Let_def)

theorem provider_depends_on_inputs_only_witness:
  "fst (selectSearchProvider (initial_tracker\<lparr>lastProvider := ''google''\<rparr>)
         (env_none\<lparr>SEARXNG_ENDPOINT := Some ''http://a''\<rparr>) 99)
   = fst (selectSearchProvider (initial_tracker\<lparr>lastProvider := ''brave''\<rparr>)
         (env_none\<lparr>SEARXNG_ENDPOINT := Some ''http://b''\<rparr>) 99)
   \<and> fst (selectSearchProvider (initial_tracker\<lparr>lastProvider := ''brave''\<rparr>)
         (env_none\<lparr>SEARXNG_ENDPOINT := Some ''http://b''\<rparr>) 99) = SearxNG"
proof -
  have "fst (selectSearchProvider (initial_tracker\<lparr>lastProvider := ''google''\<rparr>)
         (env_none\<lparr>SEARXNG_ENDPOINT := Some ''http://a''\<rparr>) 99)
   = fst (selectSearchProvider (initial_tracker\<lparr>lastProvider := ''brave''\<rparr>)
         (env_none\<lparr>SEARXNG_ENDPOINT := Some ''http://b''\<rparr>) 99)
    \<and> googleFailCount (snd (selectSearchProvider (initial_tracker\<lparr>lastProvider := ''google''\<rparr>)
         (env_none\<lparr>SEARXNG_ENDPOINT := Some ''http://a''\<rparr>) 99))
   = googleFailCount (snd (selectSearchProvider (initial_tracker\<lparr>lastProvider := ''brave''\<rparr>)
         (env_none\<lparr>SEARXNG_ENDPOINT := Some ''http://b''\<rparr>) 99))"
    by (rule provider_depends_on_inputs_only)
       (simp_all add: env_none_def truthy_def initial_tracker_def)
  moreover have "fst (selectSearchProvider (initial_tracker\<lparr>lastProvider := ''brave''\<rparr>)
         (env_none\<lparr>SEARXNG_ENDPOINT := Some ''http://b''\<rparr>) 99) = SearxNG"
    by (simp add: selectSearchProvider_def env_none_def truthy_def initial_tracker_def
        MAX_GOOGLE_FAILURES_def Let_def)
  ultimately show ?thesis by simp
qed

section \<open>Properties of \<^verbatim>\<open>search\<close>\<close>

text \<open>The four shapes of a run of the \<^verbatim>\<open>try\<close> body.\<close>

lemma search_try_alternative:
  assumes "selectSearchProvider s (select_env w) (select_time w) = (p, s1)" and "p \<noteq> Google"
  shows "search_try s w a =
    \<lparr>returned = adapter w (call_for a p), final = s1\<lparr>lastProvider := provider_name p\<rparr>,
     invoked = [call_for a p]\<rparr>"
  using assms by (cases p) (simp_all add: search_try_def)

lemma search_try_google_ok:
  assumes "selectSearchProvider s (select_env w) (select_time w) = (Google, s1)"
    and "adapter w (call_for a Google) = Inr rs"
  shows "search_try s w a =
    \<lparr>returned = Inr rs, final = s1\<lparr>lastProvider := ''google''\<rparr>,
     invoked = [call_for a Google]\<rparr>"
  using assms by (simp add: search_try_def)

lemma search_try_google_other_error:
  assumes "selectSearchProvider s (select_env w) (select_time w) = (Google, s1)"
    and "adapter w (call_for a Google) = Inl error" and "\<not> rate_limited error"
  shows "search_try s w a =
    \<lparr>returned = Inl error, final = s1\<lparr>lastProvider := ''google''\<rparr>,
     invoked = [call_for a Google]\<rparr>"
  using assms by (simp add: search_try_def)

lemma search_try_google_rate_limited:
  assumes "selectSearchProvider s (select_env w) (select_time w) = (Google, s1)"
    and "adapter w (call_for a Google) = Inl error" and "rate_limited error"
  shows "search_try s w a =
    (case first_configured (failure_env w) fallback_order of
       None \<Rightarrow>
         \<lparr>returned = Inl error,
          final = s1\<lparr>lastProvider := ''google'', googleFailCount := googleFailCount s1 + 1,
                     lastGoogleFailure := failure_time w\<rparr>,
          invoked = [call_for a Google]\<rparr>
     | Some p \<Rightarrow>
         \<lparr>returned = adapter w (call_for a p),
          final = s1\<lparr>lastProvider := ''google'', googleFailCount := googleFailCount s1 + 1,
                     lastGoogleFailure := failure_time w\<rparr>,
          invoked = [call_for a Google, call_for a p]\<rparr>)"
  using assms
  by (simp add: search_try_def first_configured_def fallback_order_def Let_def)

lemma search_try_last:
  "invoked (search_try s w a) \<noteq> []
   \<and> returned (search_try s w a) = adapter w (last (invoked (search_try s w a)))"
proof (cases "selectSearchProvider s (select_env w) (select_time w)")
  case (Pair p s1)
  show ?thesis
  proof (cases "p = Google")
    case False
    with Pair show ?thesis by (simp add: search_try_alternative)
  next
    case True
    show ?thesis
    proof (cases "adapter w (call_for a Google)")
      case (Inr rs)
      with Pair True show ?thesis by (simp add: search_try_google_ok)
    next
      case (Inl error)
      show ?thesis
      proof (cases "rate_limited error")
        case False
        with Pair True Inl show ?thesis by (simp add: search_try_google_other_error)
      next
        case True
        with Pair \<open>p = Google\<close> Inl show ?thesis
          by (simp add: search_try_google_rate_limited split: option.splits)
      qed
    qed
  qed
qed

lemma select_env_none:
  "selectSearchProvider initial_tracker env_none t = (Google, initial_tracker)"
  by (simp add: selectSearchProvider_def env_none_def truthy_def initial_tracker_def
        MAX_GOOGLE_FAILURES_def Let_def)

lemma world_changed_run:
  "search_try initial_tracker world_changed args0 =
     \<lparr>returned = Inl \<lparr>message = ''Brave Search API error: timeout'', status = None\<rparr>,
      final = \<lparr>lastProvider = ''google'', googleFailCount = 1, lastGoogleFailure = 2000\<rparr>,
      invoked = [call_for args0 Google, call_for args0 Brave]\<rparr>"
proof -
  have sel: "selectSearchProvider initial_tracker (select_env world_changed)
      (select_time world_changed) = (Google, initial_tracker)"
    by (simp add: world_changed_def select_env_none)
  have g: "adapter world_changed (call_for args0 Google)
      = Inl \<lparr>message = ''Too many requests'', status = None\<rparr>"
    by (simp add: world_changed_def)
  have rl: "rate_limited \<lparr>message = ''Too many requests'', status = None\<rparr>"
    by (simp add: rate_limited_def)
  have fc: "first_configured (failure_env world_changed) fallback_order = Some Brave"
    by (simp add: world_changed_def env_none_def first_configured_def fallback_order_def truthy_def)
  show ?thesis
    using search_try_google_rate_limited [OF sel g rl]
    by (simp add: fc) (simp add: world_changed_def initial_tracker_def)
qed

text \<open>
  While the environment does not change between the two reads, the fallback chain of
  the \<^verbatim>\<open>catch\<close> block finds nothing configured: google is resolved only when no
  alternative is.
\<close>

lemma fallback_unreachable_same_env:
  assumes "fst (selectSearchProvider s (select_env w) (select_time w)) = Google"
    and "failure_env w = select_env w"
  shows "first_configured (failure_env w) fallback_order = None"
proof -
  have "\<not> has_alternative (select_env w)"
    using assms(1) select_with_alternative [of "select_env w" s "select_time w"]
    by (auto simp add: first_configured_def resolver_order_def split: list.splits if_splits)
  then show ?thesis
    using assms(2)
    by (simp add: has_alternative_def first_configured_def fallback_order_def)
qed

text \<open>
  C1. Every run of \<^verbatim>\<open>search\<close> returns a list: when the \<^verbatim>\<open>try\<close> body throws,
  and so whenever the last adapter invoked threw, the list is empty. (Adapter calls
  settle and the logger returns, as the model of \<open>world\<close> says.)
\<close>

theorem search_never_raises:
  "(\<exists>rs. returned (search s w a) = Inr rs)
   \<and> (returned (search_try s w a) = Inl error \<longrightarrow> returned (search s w a) = Inr [])
   \<and> (adapter w (last (invoked (search s w a))) = Inl error \<longrightarrow> returned (search s w a) = Inr [])"
  using search_try_last [of s w a]
  by (auto simp add: search_def Let_def split: sum.splits)

theorem search_never_raises_witness:
  "returned (search_try initial_tracker world_changed args0)
     = Inl \<lparr>message = ''Brave Search API error: timeout'', status = None\<rparr>
   \<and> returned (search initial_tracker world_changed args0) = Inr []"
  using search_never_raises [of initial_tracker world_changed args0
      "\<lparr>message = ''Brave Search API error: timeout'', status = None\<rparr>"]
  by (simp add: world_changed_run)

text \<open>
  C2, as stated, fails. The primary is resolved while no alternative is configured;
  by the time its rate-limit error is caught, serper and brave are configured. The
  code invokes brave only and returns the empty list when brave throws; the walk in
  the resolver's order would have invoked serper, which answers.
\<close>

theorem fallback_order_counterexample:
  "returned (search initial_tracker world_changed args0) = Inr []
   \<and> invoked (search initial_tracker world_changed args0)
       = [call_for args0 Google, call_for args0 Brave]
   \<and> spec_fallback world_changed args0 = ([hit], [call_for args0 Serper])
   \<and> returned (search initial_tracker world_changed args0)
       \<noteq> Inr (fst (spec_fallback world_changed args0))
   \<and> invoked (search initial_tracker world_changed args0)
       \<noteq> call_for args0 Google # snd (spec_fallback world_changed args0)"
proof -
  have sp: "spec_fallback world_changed args0 = ([hit], [call_for args0 Serper])"
    by (simp add: spec_fallback_def resolver_order_def world_changed_def env_none_def truthy_def)
  show ?thesis
    by (simp add: search_def world_changed_run sp)
qed

text \<open>
  C2, amended. When the resolved provider is google and its adapter throws an error
  whose message contains \<^verbatim>\<open>Too many requests\<close>, \<^verbatim>\<open>search\<close> increments the
  failure counter, sets the last failure time to the current time, and invokes only
  the first alternative configured at that moment in the order brave, duckduckgo,
  serper, searchapi, searxng, with the translated options: it returns that
  alternative's results when it succeeds, and the empty list when it throws or when
  no alternative is configured.
\<close>

theorem rate_limited_primary_fallback:
  assumes "selectSearchProvider s (select_env w) (select_time w) = (Google, s1)"
    and "adapter w (call_for a Google) = Inl error"
    and "rate_limited error"
  shows "googleFailCount (final (search s w a)) = googleFailCount s1 + 1
    \<and> lastGoogleFailure (final (search s w a)) = failure_time w
    \<and> (case first_configured (failure_env w) fallback_order of
          None \<Rightarrow> invoked (search s w a) = [call_for a Google]
                   \<and> returned (search s w a) = Inr []
        | Some p \<Rightarrow> invoked (search s w a) = [call_for a Google, call_for a p]
                   \<and> returned (search s w a)
                       = (case adapter w (call_for a p) of Inr rs \<Rightarrow> Inr rs | Inl e \<Rightarrow> Inr []))"
  using search_try_google_rate_limited [OF assms]
  by (simp add: search_def Let_def split: option.splits sum.splits)

theorem rate_limited_primary_fallback_witness:
  "selectSearchProvider initial_tracker (select_env world_recovered) (select_time world_recovered)
     = (Google, initial_tracker)
   \<and> rate_limited \<lparr>message = ''Too many requests'', status = None\<rparr>
   \<and> googleFailCount (final (search initial_tracker world_recovered args0)) = 1
   \<and> lastGoogleFailure (final (search initial_tracker world_recovered args0)) = 2000
   \<and> invoked (search initial_tracker world_recovered args0)
       = [call_for args0 Google, call_for args0 Brave]
   \<and> returned (search initial_tracker world_recovered args0) = Inr [hit]"
proof -
  have sel: "selectSearchProvider initial_tracker (select_env world_recovered)
      (select_time world_recovered) = (Google, initial_tracker)"
    by (simp add: world_recovered_def select_env_none)
  have g: "adapter world_recovered (call_for args0 Google)
      = Inl \<lparr>message = ''Too many requests'', status = None\<rparr>"
    by (simp add: world_recovered_def)
  have rl: "rate_limited \<lparr>message = ''Too many requests'', status = None\<rparr>"
    by (simp add: rate_limited_def)
  have fc: "first_configured (failure_env world_recovered) fallback_order = Some Brave"
    by (simp add: world_recovered_def env_none_def first_configured_def fallback_order_def truthy_def)
  have b: "adapter world_recovered (call_for args0 Brave) = Inr [hit]"
    by (simp add: world_recovered_def)
  show ?thesis
    using rate_limited_primary_fallback [OF sel g rl] sel rl
    by (simp add: fc b) (simp add: world_recovered_def initial_tracker_def)
qed

text \<open>
  C3. When the resolved provider is google and its error is not a rate-limit error,
  or the resolved provider is an alternative and its adapter throws any error,
  \<^verbatim>\<open>search\<close> invokes no other adapter and returns the empty list, whatever is
  configured; the failure counter and time stay as the resolver left them.
\<close>

theorem no_fallback_on_other_errors:
  assumes "selectSearchProvider s (select_env w) (select_time w) = (p, s1)"
    and "adapter w (call_for a p) = Inl error"
    and "p = Google \<longrightarrow> \<not> rate_limited error"
  shows "returned (search s w a) = Inr []
    \<and> invoked (search s w a) = [call_for a p]
    \<and> final (search s w a) = s1\<lparr>lastProvider := provider_name p\<rparr>"
proof (cases "p = Google")
  case True
  with assms show ?thesis
    by (simp add: search_def search_try_google_other_error)
next
  case False
  with assms show ?thesis
    by (simp add: search_def search_try_alternative)
qed

theorem no_fallback_on_other_errors_witness:
  "\<not> rate_limited \<lparr>message = ''timeout of 5000ms exceeded'', status = None\<rparr>
   \<and> has_alternative (failure_env world_timeout)
   \<and> returned (search initial_tracker world_timeout args0) = Inr []
   \<and> invoked (search initial_tracker world_timeout args0) = [call_for args0 Google]
   \<and> returned (search initial_tracker world_brave_down args0) = Inr []
   \<and> invoked (search initial_tracker world_brave_down args0) = [call_for args0 Brave]"
proof -
  have sel: "selectSearchProvider initial_tracker (select_env world_timeout)
      (select_time world_timeout) = (Google, initial_tracker)"
    by (simp add: world_timeout_def select_env_none)
  have g: "adapter world_timeout (call_for args0 Google)
      = Inl \<lparr>message = ''timeout of 5000ms exceeded'', status = None\<rparr>"
    by (simp add: world_timeout_def)
  have nrl: "\<not> rate_limited \<lparr>message = ''timeout of 5000ms exceeded'', status = None\<rparr>"
    by (simp add: rate_limited_def)
  have alt: "has_alternative (failure_env world_timeout)"
    by (simp add: world_timeout_def has_alternative_def truthy_def)
  have sel2: "selectSearchProvider initial_tracker (select_env world_brave_down)
      (select_time world_brave_down) = (Brave, initial_tracker)"
    by (simp add: world_brave_down_def selectSearchProvider_def env_none_def truthy_def
        initial_tracker_def MAX_GOOGLE_FAILURES_def Let_def)
  have b: "adapter world_brave_down (call_for args0 Brave)
      = Inl \<lparr>message = ''Brave Search API error: Too many requests'', status = None\<rparr>"
    by (simp add: world_brave_down_def)
  show ?thesis
    using no_fallback_on_other_errors [OF sel g] no_fallback_on_other_errors [OF sel2 b] nrl alt
    by simp
qed

section \<open>Properties of the retry loops\<close>

lemma brave_loop_retry:
  assumes "retryCount < maxRetries" and "brave_attempt (http retryCount) = Inl error"
    and "retryable error"
  shows "brave_loop http retryCount evs =
    brave_loop http (Suc retryCount) (evs @ [Request, Wait (1000 * 2 ^ retryCount)])"
  using assms by (subst brave_loop.simps) (simp add: baseRetryDelay_def)

lemma brave_loop_success:
  assumes "retryCount \<le> maxRetries" and "brave_attempt (http retryCount) = Inr rs"
  shows "brave_loop http retryCount evs = (Inr rs, evs @ [Request])"
  using assms by (subst brave_loop.simps) simp

lemma brave_loop_raise:
  assumes "retryCount \<le> maxRetries" and "brave_attempt (http retryCount) = Inl error"
    and "\<not> retryable error \<or> retryCount = maxRetries"
  shows "brave_loop http retryCount evs =
    (Inl \<lparr>message = ''Brave Search API error: '' @ message error, status = None\<rparr>,
     evs @ [Request])"
  using assms by (subst brave_loop.simps) auto

lemma brave_loop_backoff:
  assumes "k \<le> maxRetries"
    and "\<forall>i<k. \<exists>error. brave_attempt (http i) = Inl error \<and> retryable error"
  shows "brave_loop http 0 [] = brave_loop http k (backoff k)"
  using assms
proof (induction k)
  case 0
  show ?case by simp
next
  case (Suc k)
  then obtain error where "brave_attempt (http k) = Inl error" and "retryable error"
    by auto
  moreover have "k < maxRetries" using Suc.prems(1) by simp
  ultimately have "brave_loop http k (backoff k) = brave_loop http (Suc k) (backoff (Suc k))"
    by (simp add: brave_loop_retry)
  with Suc show ?case by simp
qed

lemma ddg_loop_retry:
  assumes "retryCount < maxRetries" and "ddg_attempt (http retryCount) n = Inl error"
    and "retryable error"
  shows "ddg_loop http n retryCount evs =
    ddg_loop http n (Suc retryCount) (evs @ [Request, Wait (1000 * 2 ^ retryCount)])"
  using assms by (subst ddg_loop.simps) (simp add: baseRetryDelay_def)

lemma ddg_loop_success:
  assumes "retryCount \<le> maxRetries" and "ddg_attempt (http retryCount) n = Inr rs"
  shows "ddg_loop http n retryCount evs = (Inr rs, evs @ [Request])"
  using assms by (subst ddg_loop.simps) simp

lemma ddg_loop_raise:
  assumes "retryCount \<le> maxRetries" and "ddg_attempt (http retryCount) n = Inl error"
    and "\<not> retryable error \<or> retryCount = maxRetries"
  shows "ddg_loop http n retryCount evs =
    (Inl \<lparr>message = ''DuckDuckGo search error: '' @ message error, status = None\<rparr>,
     evs @ [Request])"
  using assms by (subst ddg_loop.simps) auto

lemma ddg_loop_backoff:
  assumes "k \<le> maxRetries"
    and "\<forall>i<k. \<exists>error. ddg_attempt (http i) n = Inl error \<and> retryable error"
  shows "ddg_loop http n 0 [] = ddg_loop http n k (backoff k)"
  using assms
proof (induction k)
  case 0
  show ?case by simp
next
  case (Suc k)
  then obtain error where "ddg_attempt (http k) n = Inl error" and "retryable error"
    by auto
  moreover have "k < maxRetries" using Suc.prems(1) by simp
  ultimately have "ddg_loop http n k (backoff k) = ddg_loop http n (Suc k) (backoff (Suc k))"
    by (simp add: ddg_loop_retry)
  with Suc show ?case by simp
qed

text \<open>
  C7. In \<^verbatim>\<open>braveSearch\<close> (with its key configured) and in \<^verbatim>\<open>duckduckgoSearch\<close>:
  after \<open>k \<le> 3\<close> requests that failed with status 429 or 503, each followed by a sleep of
  1000, 2000 and 4000 ms in turn, the next request decides. If it succeeds, its result
  set is returned; if it fails with another status, or it is the fourth request, the
  adapter throws an error whose message wraps the backend's message, and sends nothing
  more. Three 429 responses followed by a success are the case \<open>k = 3\<close>.
\<close>

theorem shared_retry_policy:
  assumes "k \<le> 3"
    and "\<forall>i<k. \<exists>error. bh i = Failure error \<and> (status error = Some 429 \<or> status error = Some 503)"
    and "\<forall>i<k. \<exists>error. dh i = Failure error \<and> (status error = Some 429 \<or> status error = Some 503)"
    and "truthy (BRAVE_SEARCH_API_KEY e)"
  shows "(brave_attempt (bh k) = Inr rs \<longrightarrow>
            braveSearch e bh = (Inr rs, backoff k @ [Request]))
    \<and> (bh k = Failure err
         \<and> ((status err \<noteq> Some 429 \<and> status err \<noteq> Some 503) \<or> k = 3) \<longrightarrow>
            braveSearch e bh =
              (Inl \<lparr>message = ''Brave Search API error: '' @ message err, status = None\<rparr>,
               backoff k @ [Request]))
    \<and> (ddg_attempt (dh k) n = Inr rs' \<longrightarrow>
            duckduckgoSearch dh n = (Inr rs', backoff k @ [Request]))
    \<and> (dh k = Failure err'
         \<and> ((status err' \<noteq> Some 429 \<and> status err' \<noteq> Some 503) \<or> k = 3) \<longrightarrow>
            duckduckgoSearch dh n =
              (Inl \<lparr>message = ''DuckDuckGo search error: '' @ message err', status = None\<rparr>,
               backoff k @ [Request]))
    \<and> backoff 3 = [Request, Wait 1000, Request, Wait 2000, Request, Wait 4000]"
proof -
  have k: "k \<le> maxRetries" using assms(1) by (simp add: maxRetries_def)
  have "\<forall>i<k. \<exists>error. brave_attempt (bh i) = Inl error \<and> retryable error"
    using assms(2) by (fastforce simp add: brave_attempt_def retryable_def)
  then have b: "brave_loop bh 0 [] = brave_loop bh k (backoff k)"
    using k by (rule brave_loop_backoff [rotated])
  have "\<forall>i<k. \<exists>error. ddg_attempt (dh i) n = Inl error \<and> retryable error"
    using assms(3) by (fastforce simp add: ddg_attempt_def retryable_def)
  then have d: "ddg_loop dh n 0 [] = ddg_loop dh n k (backoff k)"
    using k by (rule ddg_loop_backoff [rotated])
  have c1: "brave_attempt (bh k) = Inr rs \<longrightarrow>
      braveSearch e bh = (Inr rs, backoff k @ [Request])"
    using assms(4) k by (simp add: braveSearch_def b brave_loop_success)
  have c2: "bh k = Failure err
      \<and> ((status err \<noteq> Some 429 \<and> status err \<noteq> Some 503) \<or> k = 3) \<longrightarrow>
      braveSearch e bh =
        (Inl \<lparr>message = ''Brave Search API error: '' @ message err, status = None\<rparr>,
         backoff k @ [Request])"
  proof
    assume h: "bh k = Failure err
      \<and> ((status err \<noteq> Some 429 \<and> status err \<noteq> Some 503) \<or> k = 3)"
    then have "brave_attempt (bh k) = Inl err" by (simp add: brave_attempt_def)
    moreover have "\<not> retryable err \<or> k = maxRetries"
      using h by (auto simp add: retryable_def maxRetries_def)
    ultimately show "braveSearch e bh =
        (Inl \<lparr>message = ''Brave Search API error: '' @ message err, status = None\<rparr>,
         backoff k @ [Request])"
      using assms(4) k by (simp add: braveSearch_def b brave_loop_raise)
  qed
  have c3: "ddg_attempt (dh k) n = Inr rs' \<longrightarrow>
      duckduckgoSearch dh n = (Inr rs', backoff k @ [Request])"
    using k by (simp add: duckduckgoSearch_def d ddg_loop_success)
  have c4: "dh k = Failure err'
      \<and> ((status err' \<noteq> Some 429 \<and> status err' \<noteq> Some 503) \<or> k = 3) \<longrightarrow>
      duckduckgoSearch dh n =
        (Inl \<lparr>message = ''DuckDuckGo search error: '' @ message err', status = None\<rparr>,
         backoff k @ [Request])"
  proof
    assume h: "dh k = Failure err'
      \<and> ((status err' \<noteq> Some 429 \<and> status err' \<noteq> Some 503) \<or> k = 3)"
    then have "ddg_attempt (dh k) n = Inl err'" by (simp add: ddg_attempt_def)
    moreover have "\<not> retryable err' \<or> k = maxRetries"
      using h by (auto simp add: retryable_def maxRetries_def)
    ultimately show "duckduckgoSearch dh n =
        (Inl \<lparr>message = ''DuckDuckGo search error: '' @ message err', status = None\<rparr>,
         backoff k @ [Request])"
      using k by (simp add: duckduckgoSearch_def d ddg_loop_raise)
  qed
  have c5: "backoff 3 = [Request, Wait 1000, Request, Wait 2000, Request, Wait 4000]"
    by (simp add: numeral_3_eq_3)
  from c1 c2 c3 c4 c5 show ?thesis by blast
qed

theorem shared_retry_policy_witness:
  "braveSearch (env_none\<lparr>BRAVE_SEARCH_API_KEY := Some ''key''\<rparr>) brave_flaky =
     (Inr [hit], [Request, Wait 1000, Request, Wait 2000, Request, Wait 4000, Request])
   \<and> braveSearch (env_none\<lparr>BRAVE_SEARCH_API_KEY := Some ''key''\<rparr>) (\<lambda>i. Failure too_many_429) =
     (Inl \<lparr>message = ''Brave Search API error: Request failed with status code 429'',
           status = None\<rparr>,
      [Request, Wait 1000, Request, Wait 2000, Request, Wait 4000, Request])
   \<and> duckduckgoSearch ddg_flaky 2 =
     (Inr [\<lparr>url = Some ''https://w.org/Isabelle'', title = Some ''Isabelle'',
            description = Some ''A proof assistant''\<rparr>,
           \<lparr>url = Some ''https://isabelle.in.tum.de'', title = Some ''Official site'',
            description = Some ''Official site''\<rparr>],
      [Request, Wait 1000, Request, Wait 2000, Request, Wait 4000, Request])
   \<and> duckduckgoSearch (\<lambda>i. Failure too_many_429) 2 =
     (Inl \<lparr>message = ''DuckDuckGo search error: Request failed with status code 429'',
           status = None\<rparr>,
      [Request, Wait 1000, Request, Wait 2000, Request, Wait 4000, Request])"
proof -
  have k: "(3::nat) \<le> 3" by simp
  have key: "truthy (BRAVE_SEARCH_API_KEY (env_none\<lparr>BRAVE_SEARCH_API_KEY := Some ''key''\<rparr>))"
    by (simp add: truthy_def)
  have st: "status too_many_429 = Some 429" by (simp add: too_many_429_def)
  have b1: "\<forall>i<3. \<exists>error. brave_flaky i = Failure error
      \<and> (status error = Some 429 \<or> status error = Some 503)"
    by (simp add: brave_flaky_def st)
  have d1: "\<forall>i<3. \<exists>error. ddg_flaky i = Failure error
      \<and> (status error = Some 429 \<or> status error = Some 503)"
    by (simp add: ddg_flaky_def st)
  have b2: "\<forall>i<3. \<exists>error. (\<lambda>i. Failure too_many_429 :: brave_data http) i = Failure error
      \<and> (status error = Some 429 \<or> status error = Some 503)"
    by (simp add: st)
  have d2: "\<forall>i<3. \<exists>error. (\<lambda>i. Failure too_many_429 :: ddg_data http) i = Failure error
      \<and> (status error = Some 429 \<or> status error = Some 503)"
    by (simp add: st)
  have ok_b: "brave_attempt (brave_flaky 3) = Inr [hit]"
    by (simp add: brave_flaky_def brave_attempt_def hit_def)
  have ok_d: "ddg_attempt (ddg_flaky 3) 2 =
     Inr [\<lparr>url = Some ''https://w.org/Isabelle'', title = Some ''Isabelle'',
            description = Some ''A proof assistant''\<rparr>,
           \<lparr>url = Some ''https://isabelle.in.tum.de'', title = Some ''Official site'',
            description = Some ''Official site''\<rparr>]"
    by (simp add: ddg_flaky_def ddg_attempt_def ddg_collect_def ddg_example_def
        abstract_entry_def truthy_def result_entry_def js_slice0_def Let_def)
  have sched: "backoff 3 = [Request, Wait 1000, Request, Wait 2000, Request, Wait 4000]"
    by (simp add: numeral_3_eq_3)
  show ?thesis
    using shared_retry_policy [OF k b1 d1 key, of "[hit]" too_many_429 2
        "[\<lparr>url = Some ''https://w.org/Isabelle'', title = Some ''Isabelle'',
            description = Some ''A proof assistant''\<rparr>,
           \<lparr>url = Some ''https://isabelle.in.tum.de'', title = Some ''Official site'',
            description = Some ''Official site''\<rparr>]" too_many_429]
      shared_retry_policy [OF k b2 d2 key, of "[]" too_many_429 2 "[]" too_many_429]
      ok_b ok_d
    by (simp add: sched) (simp add: too_many_429_def)
qed

section \<open>Properties of the DuckDuckGo adapter's merge\<close>

lemma push_results_take:
  "push_results n rs results
     = results @ take (nat n - length results) (map result_entry rs)"
proof (induction rs arbitrary: results)
  case Nil
  show ?case by simp
next
  case (Cons r rs)
  show ?case
  proof (cases "int (length results) < n")
    case True
    then have "nat n - length results = Suc (nat n - Suc (length results))" by linarith
    with True Cons show ?thesis by simp
  next
    case False
    then have "nat n - length results = 0" by linarith
    with False Cons show ?thesis by simp
  qed
qed

lemma push_topics_take:
  assumes "\<forall>t \<in> set ts. listed_topic t \<longrightarrow> Text t \<noteq> None"
  shows "push_topics n ts results
     = Inr (results @ take (nat n - length results) (map topic_entry (filter listed_topic ts)))"
  using assms
proof (induction ts arbitrary: results)
  case Nil
  show ?case by simp
next
  case (Cons t ts)
  then have ih: "\<And>results. push_topics n ts results
     = Inr (results @ take (nat n - length results) (map topic_entry (filter listed_topic ts)))"
    by simp
  show ?case
  proof (cases "listed_topic t")
    case False
    then have "Topics t \<or> \<not> truthy (FirstURL t)" by (simp add: listed_topic_def)
    with False show ?thesis by (auto simp add: ih)
  next
    case True
    then obtain tx where tx: "Text t = Some tx" using Cons.prems by auto
    have nt: "\<not> Topics t" "truthy (FirstURL t)"
      using True by (simp_all add: listed_topic_def)
    have te: "topic_entry t =
        \<lparr>url = FirstURL t, title = Text t, description = Some (topic_description tx)\<rparr>"
      using tx by (simp add: topic_entry_def)
    show ?thesis
    proof (cases "int (length results) < n")
      case lt: True
      then have "nat n - length results = Suc (nat n - Suc (length results))" by linarith
      with lt True tx nt te show ?thesis
        by (simp add: ih)
    next
      case ge: False
      then have "nat n - length results = 0" by linarith
      with ge True nt show ?thesis by (simp add: ih)
    qed
  qed
qed

lemma take_capped_append2:
  "take m ((xs @ take (m - length xs) ys) @ take (m - length (xs @ take (m - length xs) ys)) zs)
     = take m (xs @ ys @ zs)"
  by (auto simp add: min_def)

lemma length_abstract_entry: "length (abstract_entry d) \<le> 1"
  by (simp add: abstract_entry_def)

lemma ddg_collect_merged:
  assumes "\<forall>t \<in> set (case RelatedTopics d of None \<Rightarrow> [] | Some ts \<Rightarrow> ts).
             listed_topic t \<longrightarrow> Text t \<noteq> None"
  shows "ddg_collect d n = Inr (take (nat n) (merged d))"
proof -
  define A where "A = abstract_entry d"
  define R where "R = map result_entry (case Results d of None \<Rightarrow> [] | Some rs \<Rightarrow> rs)"
  define T where "T = map topic_entry
      (filter listed_topic (case RelatedTopics d of None \<Rightarrow> [] | Some ts \<Rightarrow> ts))"
  define B where "B = A @ take (nat n - length A) R"
  have c: "ddg_collect d n = Inr (js_slice0 (B @ take (nat n - length B) T) n)"
    using assms
    by (cases "Results d"; cases "RelatedTopics d")
       (simp_all add: ddg_collect_def Let_def push_results_take push_topics_take
          A_def B_def R_def T_def)
  have "js_slice0 (B @ take (nat n - length B) T) n = take (nat n) (A @ R @ T)"
  proof (cases "n < 0")
    case False
    then show ?thesis
      unfolding B_def js_slice0_def using take_capped_append2 [of "nat n" A R T] by simp
  next
    case True
    moreover have "length A \<le> 1" unfolding A_def by (rule length_abstract_entry)
    ultimately show ?thesis by (simp add: B_def js_slice0_def)
  qed
  with c show ?thesis by (simp add: merged_def A_def R_def T_def)
qed

lemma js_split_first:
  "sep \<noteq> [] \<Longrightarrow> js_split sep cur s =
     (cur @ before_first sep s)
     # (case after_first sep s of None \<Rightarrow> [] | Some rest \<Rightarrow> js_split sep [] rest)"
  by (induction sep cur s rule: js_split.induct) auto

lemma topic_description_segment:
  "topic_description txt =
     (case after_first '' - '' txt of
        None \<Rightarrow> txt
      | Some rest \<Rightarrow> if before_first '' - '' rest = [] then txt else before_first '' - '' rest)"
proof (cases "after_first '' - '' txt")
  case None
  then show ?thesis
    by (simp add: topic_description_def js_split_first [of "'' - ''" "[]" "txt"])
next
  case (Some rest)
  then show ?thesis
    by (simp add: topic_description_def js_split_first [of "'' - ''" "[]" "txt"]
        js_split_first [of "'' - ''" "[]" rest] split: option.splits)
qed

text \<open>
  C8, as stated, fails. For the topic text \<^verbatim>\<open>A - B - C\<close> the description is
  \<^verbatim>\<open>B\<close>, the second piece of the split, not the text after the first separator;
  the topic without \<^verbatim>\<open>FirstURL\<close> beside it is not listed although it is no
  category. With \<^verbatim>\<open>num_results = -1\<close> the output is empty, which is longer than
  \<^verbatim>\<open>num_results\<close>. A topic with a \<^verbatim>\<open>FirstURL\<close> and no \<^verbatim>\<open>Text\<close> makes the
  adapter throw.
\<close>

theorem topic_description_counterexample:
  "ddg_collect ddg_topics_only 5 =
     Inr [\<lparr>url = Some ''https://d.co/c'', title = Some ''A - B - C'', description = Some ''B''\<rparr>]
   \<and> spec_topic_description ''A - B - C'' = ''B - C''
   \<and> topic_description ''A - B - C'' \<noteq> spec_topic_description ''A - B - C''
   \<and> ddg_collect ddg_example (- 1) = Inr []
   \<and> \<not> int (length ([] :: SearchResult list)) \<le> - 1
   \<and> ddg_collect ddg_textless 5 = Inl split_of_undefined"
proof -
  have a: "topic_description ''A - B - C'' = ''B''"
    by (simp add: topic_description_def)
  have b: "spec_topic_description ''A - B - C'' = ''B - C''"
    by (simp add: spec_topic_description_def)
  have c: "ddg_collect ddg_topics_only 5 =
     Inr [\<lparr>url = Some ''https://d.co/c'', title = Some ''A - B - C'', description = Some ''B''\<rparr>]"
    by (simp add: ddg_collect_def ddg_topics_only_def abstract_entry_def truthy_def a
        js_slice0_def Let_def)
  have d: "ddg_collect ddg_example (- 1) = Inr []"
    by (simp add: ddg_collect_def ddg_example_def abstract_entry_def truthy_def
        js_slice0_def Let_def)
  have e: "ddg_collect ddg_textless 5 = Inl split_of_undefined"
    by (simp add: ddg_collect_def ddg_textless_def abstract_entry_def truthy_def Let_def)
  from a b c d e show ?thesis by simp
qed

text \<open>
  C8, amended. For every response body in which each related topic that is not a
  category and has a non-empty \<^verbatim>\<open>FirstURL\<close> has a \<^verbatim>\<open>Text\<close>, the adapter returns
  the first \<^verbatim>\<open>num_results\<close> entries (none when \<^verbatim>\<open>num_results\<close> is negative) of:
  the abstract entry when present, then the entries of \<^verbatim>\<open>Results\<close> with the
  result's text as title and description, then the related topics that are not
  categories and have a non-empty \<^verbatim>\<open>FirstURL\<close>. A related topic's description is
  the text after the first \<^verbatim>\<open>" - "\<close> up to the next \<^verbatim>\<open>" - "\<close>, and the whole
  text when there is no separator or that piece is empty.
\<close>

theorem merged_and_truncated:
  assumes "\<forall>t \<in> set (case RelatedTopics d of None \<Rightarrow> [] | Some ts \<Rightarrow> ts).
             listed_topic t \<longrightarrow> Text t \<noteq> None"
  shows "ddg_collect d n = Inr (take (nat n) (merged d))
    \<and> (dh 0 = Response d \<longrightarrow>
         duckduckgoSearch dh n = (Inr (take (nat n) (merged d)), [Request]))
    \<and> (ddg_collect d n = Inr rs \<longrightarrow> length rs \<le> nat n)
    \<and> topic_description tx =
        (case after_first '' - '' tx of
           None \<Rightarrow> tx
         | Some rest \<Rightarrow>
             if before_first '' - '' rest = [] then tx else before_first '' - '' rest)"
proof -
  have c: "ddg_collect d n = Inr (take (nat n) (merged d))"
    using assms by (rule ddg_collect_merged)
  have "dh 0 = Response d \<longrightarrow>
      duckduckgoSearch dh n = (Inr (take (nat n) (merged d)), [Request])"
    by (simp add: duckduckgoSearch_def ddg_loop_success ddg_attempt_def c)
  with c show ?thesis
    by (auto simp add: topic_description_segment)
qed

theorem merged_and_truncated_witness:
  "ddg_collect ddg_example 3 =
     Inr [\<lparr>url = Some ''https://w.org/Isabelle'', title = Some ''Isabelle'',
           description = Some ''A proof assistant''\<rparr>,
          \<lparr>url = Some ''https://isabelle.in.tum.de'', title = Some ''Official site'',
           description = Some ''Official site''\<rparr>,
          \<lparr>url = Some ''https://isa-afp.org'', title = Some ''AFP'', description = Some ''AFP''\<rparr>]
   \<and> ddg_collect ddg_example 10 =
     Inr [\<lparr>url = Some ''https://w.org/Isabelle'', title = Some ''Isabelle'',
           description = Some ''A proof assistant''\<rparr>,
          \<lparr>url = Some ''https://isabelle.in.tum.de'', title = Some ''Official site'',
           description = Some ''Official site''\<rparr>,
          \<lparr>url = Some ''https://isa-afp.org'', title = Some ''AFP'', description = Some ''AFP''\<rparr>,
          \<lparr>url = Some ''https://d.co/HOL'', title = Some ''HOL - Logic'',
           description = Some ''Logic''\<rparr>]"
proof -
  have h: "\<forall>t \<in> set (case RelatedTopics ddg_example of None \<Rightarrow> [] | Some ts \<Rightarrow> ts).
             listed_topic t \<longrightarrow> Text t \<noteq> None"
    by (simp add: ddg_example_def listed_topic_def)
  have m: "merged ddg_example =
     [\<lparr>url = Some ''https://w.org/Isabelle'', title = Some ''Isabelle'',
           description = Some ''A proof assistant''\<rparr>,
          \<lparr>url = Some ''https://isabelle.in.tum.de'', title = Some ''Official site'',
           description = Some ''Official site''\<rparr>,
          \<lparr>url = Some ''https://isa-afp.org'', title = Some ''AFP'', description = Some ''AFP''\<rparr>,
          \<lparr>url = Some ''https://d.co/HOL'', title = Some ''HOL - Logic'',
           description = Some ''Logic''\<rparr>]"
    by (simp add: merged_def ddg_example_def abstract_entry_def result_entry_def topic_entry_def
        listed_topic_def truthy_def topic_description_def)
  show ?thesis
    using merged_and_truncated [OF h, of 3] merged_and_truncated [OF h, of 10]
    by (simp add: m)
qed

text \<open>
  The entries of the two guarded sections carry a URL: the abstract entry is pushed
  only when \<^verbatim>\<open>AbstractURL\<close> and \<^verbatim>\<open>AbstractText\<close> are both non-empty, and a
  related topic only when its \<^verbatim>\<open>FirstURL\<close> is.
\<close>

lemma abstract_entry_present:
  "abstract_entry d \<noteq> [] \<longleftrightarrow> truthy (AbstractURL d) \<and> truthy (AbstractText d)"
  by (simp add: abstract_entry_def)

lemma guarded_sections_have_urls:
  assumes "r \<in> set (abstract_entry d) \<union> set (map topic_entry (filter listed_topic ts))"
  shows "truthy (url r)"
  using assms
  by (auto simp add: abstract_entry_def topic_entry_def listed_topic_def split: if_splits)

text \<open>
  C10. The entries of \<^verbatim>\<open>Results\<close> are pushed without a test of \<^verbatim>\<open>FirstURL\<close>:
  a result without it is returned with an absent URL.
\<close>

theorem result_without_url_is_returned:
  "duckduckgoSearch (\<lambda>i. Response ddg_urlless_result) 5 =
     (Inr [\<lparr>url = None, title = Some ''Isabelle'', description = Some ''Isabelle''\<rparr>], [Request])"
proof -
  have "ddg_collect ddg_urlless_result 5 =
      Inr [\<lparr>url = None, title = Some ''Isabelle'', description = Some ''Isabelle''\<rparr>]"
    by (simp add: ddg_collect_def ddg_urlless_result_def abstract_entry_def truthy_def
        result_entry_def js_slice0_def Let_def)
  then have "duckduckgoSearch (\<lambda>i. Response ddg_urlless_result) 5 =
     (Inr [\<lparr>url = None, title = Some ''Isabelle'', description = Some ''Isabelle''\<rparr>], [Request])"
    by (simp add: duckduckgoSearch_def ddg_loop_success ddg_attempt_def)
  then show ?thesis by simp
qed

end
